theory Spec2Isabelle
  imports Complex_Main
begin

section \<open>The language-negotiation request matcher (langnegmatcher.go)\<close>

subsection \<open>Configuration\<close>

text \<open>
  The Go struct \<open>Config\<close>. A Go string is a sequence of bytes and \<open>len\<close> counts bytes,
  as \<open>length\<close> does on a HOL \<open>string\<close>.
\<close>

record Config =
  MatchLanguages :: "string list"
  FullLocale :: bool
  VarLanguage :: string
  FallbackValue :: string

subsection \<open>The package golang.org/x/text/language, as the matcher uses it\<close>

text \<open>
  The matcher imports golang.org/x/text/language; the package is not part of the
  repository, so the functions of it that the matcher calls are parameters of the model,
  collected in one record. \<open>'tag\<close> is \<open>language.Tag\<close>, \<open>'lm\<close> is an implementation of
  the interface \<open>language.Matcher\<close>. \<open>tag.Base()\<close>, \<open>tag.Region()\<close> and \<open>tag.Script()\<close>
  return a subtag and a confidence; the matcher only ever calls \<open>String()\<close> on the
  subtag, so the subtag is represented by that string.
\<close>

datatype Confidence = No | Low | High | Exact

record ('tag, 'lm) language_pkg =
  Und :: 'tag
  Make :: "string \<Rightarrow> 'tag"
  NewMatcher :: "'tag list \<Rightarrow> 'lm"
  MatchStrings :: "'lm \<Rightarrow> string \<Rightarrow> 'tag \<times> int"
  IsRoot :: "'tag \<Rightarrow> bool"
  Base :: "'tag \<Rightarrow> string \<times> Confidence"
  Region :: "'tag \<Rightarrow> string \<times> Confidence"
  Script :: "'tag \<Rightarrow> string \<times> Confidence"

subsection \<open>The matcher, the request and the errors\<close>

text \<open>
  \<open>LanguageMatcher\<close> is an interface value and \<open>logger\<close> a pointer: both are nil until
  \<open>Provision\<close> sets them, and a call through either while it is nil panics.
\<close>

datatype Logger = ZapLogger

record Context =
  CtxLogger :: Logger

record 'lm Matcher =
  Config :: Config
  LanguageMatcher :: "'lm option"
  logger :: "Logger option"

datatype error = ConfigError string | NilDereference

text \<open>
  Of the request the matcher reads the header and writes the variable table that
  \<open>caddyhttp.SetVar\<close> reaches through the request's context.
\<close>

record Request =
  Header :: "string \<rightharpoonup> string list"
  Vars :: "string \<rightharpoonup> string"

definition HeaderGet :: "Request \<Rightarrow> string \<Rightarrow> string" where
  "HeaderGet r key = (case Header r key of None \<Rightarrow> [] | Some [] \<Rightarrow> [] | Some (v # _) \<Rightarrow> v)"

definition SetVar :: "Request \<Rightarrow> string \<Rightarrow> string \<Rightarrow> Request" where
  "SetVar r key val = r\<lparr>Vars := (Vars r)(key \<mapsto> val)\<rparr>"

fun Join :: "string list \<Rightarrow> string \<Rightarrow> string" where
  "Join [] sep = []"
| "Join [x] sep = x"
| "Join (x # y # ys) sep = x @ sep @ Join (y # ys) sep"

subsection \<open>Provision and Validate\<close>

definition Provision ::
  "('tag, 'lm) language_pkg \<Rightarrow> Context \<Rightarrow> 'lm Matcher \<Rightarrow> error option \<times> 'lm Matcher" where
  "Provision L ctx m =
     (let m1 = m\<lparr>logger := Some (CtxLogger ctx)\<rparr>;
          MatchTLanguages = foldl (\<lambda>acc l. acc @ [Make L l]) ([] @ [Und L])
                              (MatchLanguages (Config m1))
      in (None, m1\<lparr>LanguageMatcher := Some (NewMatcher L MatchTLanguages)\<rparr>))"

definition validate_message :: string where
  "validate_message = ''you cannot specify a variable to store content negotiation results (for languages) if you don't also specify what languages are offered. (Use '*' to work around this constraint.)''"

definition Validate :: "'lm Matcher \<Rightarrow> error option" where
  "Validate m =
     (if length (MatchLanguages (Config m)) = 0 \<and> length (VarLanguage (Config m)) > 0
      then Some (ConfigError validate_message)
      else None)"

subsection \<open>Match and matchLanguage\<close>

text \<open>
  \<open>matchLanguage\<close> logs twice (a panic when the logger is nil), asks the package for
  the best tag (a panic when the matcher is nil), prints the index to standard output,
  which the model leaves out, and renders the tag.
\<close>

definition matchLanguage ::
  "('tag, 'lm) language_pkg \<Rightarrow> 'lm Matcher \<Rightarrow> Request \<Rightarrow> error + (bool \<times> string)" where
  "matchLanguage L m r =
     (let headerValue = HeaderGet r ''Accept-Language'' in
      case logger m of None \<Rightarrow> Inl NilDereference
      | Some _ \<Rightarrow>
        (case LanguageMatcher m of None \<Rightarrow> Inl NilDereference
         | Some lm \<Rightarrow>
           (let (tag, idx) = MatchStrings L lm headerValue;
                match = (\<not> IsRoot L tag)
            in if match then
                 (if FullLocale (Config m) then
                    (let (b, bc) = Base L tag;
                         (r, rc) = Region L tag;
                         (s, sc) = Script L tag;
                         res0 = [];
                         res1 = (if bc = Exact then res0 @ [b] else res0);
                         res2 = (if rc = Exact then res1 @ [r] else res1);
                         res3 = (if sc = Exact then res2 @ [s] else res2)
                     in Inr (match, Join res3 ''-''))
                  else
                    (let (b, _) = Base L tag in Inr (match, b)))
               else Inr (match, []))))"

definition Match ::
  "('tag, 'lm) language_pkg \<Rightarrow> 'lm Matcher \<Rightarrow> Request \<Rightarrow> error + (bool \<times> Request)" where
  "Match L m r =
     (if length (MatchLanguages (Config m)) = 0 then Inr (True, r)
      else
        (case matchLanguage L m r of
           Inl e \<Rightarrow> Inl e
         | Inr (languageMatch, locale) \<Rightarrow>
             if languageMatch \<and> length (VarLanguage (Config m)) > 0 then
               Inr (languageMatch, SetVar r (''langneg_'' @ VarLanguage (Config m)) locale)
             else if length (FallbackValue (Config m)) > 0 \<and> length (VarLanguage (Config m)) > 0 then
               Inr (True, SetVar r (''langneg_'' @ VarLanguage (Config m)) (FallbackValue (Config m)))
             else Inr (languageMatch, r)))"

subsection \<open>The negotiation engine of the specification\<close>

text \<open>
  Modelled from the spec: the weighted language range of section 3, one stated preference
  of the client. The parser, the tag model and the match engine below stand for the
  package golang.org/x/text/language, whose code is not among the sources.
\<close>

record LanguageRange =
  tag :: string
  quality :: rat

text \<open>
  Modelled from the spec: the language tag of section 3, three optional component slots
  and one exactness flag for each; \<open>Root\<close> is the distinguished wildcard tag.
\<close>

record LanguageTag =
  language :: "string option"
  script :: "string option"
  region :: "string option"
  language_exact :: bool
  script_exact :: bool
  region_exact :: bool

definition Root :: LanguageTag where
  "Root = \<lparr>language = None, script = None, region = None,
            language_exact = False, script_exact = False, region_exact = False\<rparr>"

definition is_root :: "LanguageTag \<Rightarrow> bool" where
  "is_root t = (t = Root)"

text \<open>Modelled from the spec: the character classes that sections 4.1 and 4.2 name.\<close>

definition is_alpha :: "char \<Rightarrow> bool" where
  "is_alpha c = (let n = (of_char c :: nat) in (97 \<le> n \<and> n \<le> 122) \<or> (65 \<le> n \<and> n \<le> 90))"

definition is_digit :: "char \<Rightarrow> bool" where
  "is_digit c = (let n = (of_char c :: nat) in 48 \<le> n \<and> n \<le> 57)"

definition is_space :: "char \<Rightarrow> bool" where
  "is_space c = (c = CHR '' '' \<or> c = CHR 0x09)"

fun split_on :: "char \<Rightarrow> string \<Rightarrow> string list" where
  "split_on d [] = [[]]"
| "split_on d (c # cs) =
     (if c = d then [] # split_on d cs
      else (case split_on d cs of [] \<Rightarrow> [[c]] | x # xs \<Rightarrow> (c # x) # xs))"

definition trim :: "string \<Rightarrow> string" where
  "trim s = rev (dropWhile is_space (rev (dropWhile is_space s)))"

text \<open>
  Modelled from the spec: the range parser of section 4.1. A segment splits at the first
  \<open>;q=\<close> (the \<open>q\<close> in either case); the weight is a decimal numeral; a range whose
  weight is malformed or outside \<open>[0, 1]\<close> is dropped alone; a segment with no weight
  has quality 1; the order of the header is kept.
\<close>

fun split_weight :: "string \<Rightarrow> string \<times> string option" where
  "split_weight [] = ([], None)"
| "split_weight (c # cs) =
     (if c = CHR '';'' \<and> (take 2 cs = ''q='' \<or> take 2 cs = ''Q='') then ([], Some (drop 2 cs))
      else (let (t, w) = split_weight cs in (c # t, w)))"

definition digits_value :: "string \<Rightarrow> nat" where
  "digits_value ds = foldl (\<lambda>acc c. 10 * acc + (of_char c - 48)) 0 ds"

definition parse_weight :: "string \<Rightarrow> rat option" where
  "parse_weight s =
     (let ip = takeWhile is_digit s; rest = dropWhile is_digit s in
      if ip = [] then None
      else (case rest of
              [] \<Rightarrow> Some (of_nat (digits_value ip))
            | d # fp \<Rightarrow>
                if d = CHR ''.'' \<and> list_all is_digit fp
                then Some (of_nat (digits_value ip) + of_nat (digits_value fp) / 10 ^ length fp)
                else None))"

definition parse_segment :: "string \<Rightarrow> LanguageRange option" where
  "parse_segment seg =
     (case split_weight seg of
        (t, None) \<Rightarrow> Some \<lparr>tag = trim t, quality = 1\<rparr>
      | (t, Some w) \<Rightarrow>
          (case parse_weight (trim w) of
             None \<Rightarrow> None
           | Some q \<Rightarrow> if 0 \<le> q \<and> q \<le> 1 then Some \<lparr>tag = trim t, quality = q\<rparr> else None))"

definition parse_ranges :: "string \<Rightarrow> LanguageRange list" where
  "parse_ranges header =
     List.map_filter parse_segment
       (filter (\<lambda>seg. seg \<noteq> []) (map trim (split_on CHR '','' header)))"

text \<open>
  Modelled from the spec: the tag parser of section 4.2. The first subtag is the language
  when it is two or three letters; a following subtag of four letters is the script; a
  following subtag of two letters or three digits is the region; later subtags are
  ignored; \<open>*\<close>, \<open>*-*\<close> and an identifier with no language subtag are the Root tag.
\<close>

definition is_language_subtag :: "string \<Rightarrow> bool" where
  "is_language_subtag s = ((length s = 2 \<or> length s = 3) \<and> list_all is_alpha s)"

definition is_script_subtag :: "string \<Rightarrow> bool" where
  "is_script_subtag s = (length s = 4 \<and> list_all is_alpha s)"

definition is_region_subtag :: "string \<Rightarrow> bool" where
  "is_region_subtag s =
     ((length s = 2 \<and> list_all is_alpha s) \<or> (length s = 3 \<and> list_all is_digit s))"

definition parse_tag :: "string \<Rightarrow> LanguageTag" where
  "parse_tag s =
     (if s = ''*'' \<or> s = ''*-*'' then Root
      else (case split_on CHR ''-'' s of
              [] \<Rightarrow> Root
            | l # rest \<Rightarrow>
                if \<not> is_language_subtag l then Root
                else
                  (let (sc, rest1) =
                         (case rest of
                            [] \<Rightarrow> (None, [])
                          | x # xs \<Rightarrow> if is_script_subtag x then (Some x, xs) else (None, rest));
                       rg = (case rest1 of
                               [] \<Rightarrow> None
                             | x # xs \<Rightarrow> if is_region_subtag x then Some x else None)
                   in \<lparr>language = Some l, script = sc, region = rg,
                       language_exact = True, script_exact = (sc \<noteq> None),
                       region_exact = (rg \<noteq> None)\<rparr>)))"

text \<open>
  Modelled from the spec: the confidence score of section 4.3, step 3, its six cases in
  the order of the text.
\<close>

definition both_exact_equal :: "bool \<Rightarrow> string option \<Rightarrow> bool \<Rightarrow> string option \<Rightarrow> bool" where
  "both_exact_equal ea a eb b = (ea \<and> eb \<and> a \<noteq> None \<and> a = b)"

definition score :: "LanguageTag \<Rightarrow> LanguageTag \<Rightarrow> rat" where
  "score rt ot =
     (let language_match = (language rt \<noteq> None \<and> language rt = language ot);
          script_equal = both_exact_equal (script_exact rt) (script rt) (script_exact ot) (script ot);
          region_equal = both_exact_equal (region_exact rt) (region rt) (region_exact ot) (region ot)
      in if \<not> is_root rt \<and> \<not> is_root ot \<and> language_exact rt \<and> language_exact ot
            \<and> language rt \<noteq> language ot then 0
         else if language_match \<and> script_equal \<and> region_equal then 3
         else if language_match \<and> (script rt = None \<or> script ot = None) \<and> region_equal then 2
         else if language_match then 1
         else if (is_root rt \<and> \<not> is_root ot) \<or> (is_root ot \<and> \<not> is_root rt) then 1 / 2
         else 0)"

text \<open>
  Modelled from the spec: steps 1, 4, 5 and 6 of section 4.3. The ranges are sorted
  stably by descending quality and those of quality 0 dropped; the confidence of an
  offered tag is the greatest of \<open>score * quality\<close> over the ranges; the first offered
  tag of greatest confidence is chosen; confidence 0 is no match, and Root is returned.
\<close>

definition sort_ranges :: "LanguageRange list \<Rightarrow> LanguageRange list" where
  "sort_ranges rs = filter (\<lambda>r. quality r \<noteq> 0) (sort_key (\<lambda>r. - quality r) rs)"

definition confidence :: "LanguageRange list \<Rightarrow> LanguageTag \<Rightarrow> rat" where
  "confidence rs ot = foldl max 0 (map (\<lambda>r. score (parse_tag (tag r)) ot * quality r) rs)"

fun select_from :: "nat \<times> rat \<Rightarrow> nat \<Rightarrow> rat list \<Rightarrow> nat \<times> rat" where
  "select_from best i [] = best"
| "select_from (bi, bc) i (c # cs) =
     (if bc < c then select_from (i, c) (Suc i) cs else select_from (bi, bc) (Suc i) cs)"

definition negotiate :: "LanguageRange list \<Rightarrow> LanguageTag list \<Rightarrow> LanguageTag \<times> int" where
  "negotiate ranges offered =
     (case map (confidence (sort_ranges ranges)) offered of
        [] \<Rightarrow> (Root, 0)
      | c # cs \<Rightarrow>
          (let (i, best) = select_from (0, c) 1 cs
           in if best = 0 then (Root, 0) else (offered ! i, int i)))"

text \<open>
  Modelled from the spec: the package as the specification describes it. The offered set
  is the list of tags that \<open>Provision\<close> builds; a component is reported with confidence
  \<open>Exact\<close> when its flag is set, and an absent component is the empty string.
\<close>

definition component :: "string option \<Rightarrow> bool \<Rightarrow> string \<times> Confidence" where
  "component c e = (case c of None \<Rightarrow> [] | Some s \<Rightarrow> s, if e then Exact else No)"

definition spec_language :: "(LanguageTag, LanguageTag list) language_pkg" where
  "spec_language =
     \<lparr>Und = Root,
      Make = parse_tag,
      NewMatcher = (\<lambda>offered. offered),
      MatchStrings = (\<lambda>offered header. negotiate (parse_ranges header) offered),
      IsRoot = is_root,
      Base = (\<lambda>t. component (language t) (language_exact t)),
      Region = (\<lambda>t. component (region t) (region_exact t)),
      Script = (\<lambda>t. component (script t) (script_exact t))\<rparr>"

subsection \<open>Example inputs\<close>

text \<open>
  A matcher as the server holds it after \<open>Provision\<close>, over the package of the
  specification, and a request that carries one Accept-Language header and a variable
  that an earlier handler has set.
\<close>

definition example_matcher :: "Config \<Rightarrow> LanguageTag list Matcher" where
  "example_matcher c =
     snd (Provision spec_language \<lparr>CtxLogger = ZapLogger\<rparr>
            \<lparr>Config = c, LanguageMatcher = None, logger = None\<rparr>)"

definition example_request :: "string \<Rightarrow> Request" where
  "example_request h =
     \<lparr>Header = [''Accept-Language'' \<mapsto> [h]], Vars = [''langneg_old'' \<mapsto> ''pl'']\<rparr>"

definition tag_de :: LanguageTag where
  "tag_de = \<lparr>language = Some ''de'', script = None, region = None,
              language_exact = True, script_exact = False, region_exact = False\<rparr>"

definition tag_de_DE :: LanguageTag where
  "tag_de_DE = \<lparr>language = Some ''de'', script = None, region = Some ''DE'',
                 language_exact = True, script_exact = False, region_exact = True\<rparr>"

subsection \<open>Basic facts\<close>

lemma offered_tags: "foldl (\<lambda>acc l. acc @ [f l]) xs ls = xs @ map f ls"
  by (induction ls arbitrary: xs) simp_all

lemma Provision_eq:
  "Provision L ctx m =
     (None, m\<lparr>logger := Some (CtxLogger ctx),
              LanguageMatcher := Some (NewMatcher L (Und L # map (Make L) (MatchLanguages (Config m))))\<rparr>)"
  by (simp add: Provision_def offered_tags Let_def)

text \<open>
  What \<open>matchLanguage\<close> returns once the logger and the matcher are set: it never
  panics, and the result is read off the tag that the package selects.
\<close>

lemma matchLanguage_eq:
  assumes "logger m = Some lg" and "LanguageMatcher m = Some lm"
  shows "matchLanguage L m r =
           (let t = fst (MatchStrings L lm (HeaderGet r ''Accept-Language'')) in
            if IsRoot L t then Inr (False, [])
            else if FullLocale (Config m) then
              Inr (True, Join ((if snd (Base L t) = Exact then [fst (Base L t)] else [])
                               @ (if snd (Region L t) = Exact then [fst (Region L t)] else [])
                               @ (if snd (Script L t) = Exact then [fst (Script L t)] else [])) ''-'')
            else Inr (True, fst (Base L t)))"
  using assms by (simp add: matchLanguage_def Let_def split: prod.splits)

lemma matchLanguage_returns:
  assumes "logger m = Some lg" and "LanguageMatcher m = Some lm"
  shows "\<exists>mt loc. matchLanguage L m r = Inr (mt, loc)"
  using assms by (auto simp add: matchLanguage_eq Let_def)

subsection \<open>Facts about the example inputs\<close>

lemma example_matcher_simps:
  "Config (example_matcher c) = c"
  "logger (example_matcher c) = Some ZapLogger"
  "LanguageMatcher (example_matcher c) = Some (Root # map parse_tag (MatchLanguages c))"
  by (simp_all add: example_matcher_def Provision_eq spec_language_def)

lemma example_request_header: "HeaderGet (example_request h) ''Accept-Language'' = h"
  by (simp add: example_request_def HeaderGet_def)

lemma spec_language_simps:
  "MatchStrings spec_language offered h = negotiate (parse_ranges h) offered"
  "IsRoot spec_language = is_root"
  "Base spec_language t = component (language t) (language_exact t)"
  "Region spec_language t = component (region t) (region_exact t)"
  "Script spec_language t = component (script t) (script_exact t)"
  by (simp_all add: spec_language_def)

lemma negotiate_fr_FR:
  "negotiate (parse_ranges ''fr-FR'') (Root # map parse_tag [''de'', ''en'']) = (Root, 0)"
  by code_simp

lemma negotiate_en_de:
  "negotiate (parse_ranges ''en;q=0.4, de;q=0.8'') (Root # map parse_tag [''de'', ''en''])
     = (tag_de, 1)"
  by code_simp

lemma negotiate_de_DE:
  "negotiate (parse_ranges ''de-DE'') (Root # map parse_tag [''de-DE'', ''en'']) = (tag_de_DE, 1)"
  by code_simp

lemma example_tags:
  "\<not> is_root tag_de" "\<not> is_root tag_de_DE" "is_root Root"
  "component (language tag_de) (language_exact tag_de) = (''de'', Exact)"
  "component (language tag_de_DE) (language_exact tag_de_DE) = (''de'', Exact)"
  "component (region tag_de_DE) (region_exact tag_de_DE) = (''DE'', Exact)"
  "component (script tag_de_DE) (script_exact tag_de_DE) = ([], No)"
  "component (region tag_de) (region_exact tag_de) = ([], No)"
  "component (script tag_de) (script_exact tag_de) = ([], No)"
  by (simp_all add: is_root_def Root_def tag_de_def tag_de_DE_def component_def)

subsection \<open>The base language in the package of the specification\<close>

text \<open>
  The engine returns Root or one of the offered tags, and a tag that the parser builds
  has letters only in its language slot: over this package the base language of a
  selected tag never holds a hyphen.
\<close>

lemma select_from_bound:
  "bi < i \<Longrightarrow> fst (select_from (bi, bc) i cs) < i + length cs"
proof (induction cs arbitrary: bi bc i)
  case Nil
  then show ?case by simp
next
  case (Cons c cs)
  have "fst (select_from (i, c) (Suc i) cs) < Suc i + length cs"
    by (rule Cons.IH) simp
  moreover have "fst (select_from (bi, bc) (Suc i) cs) < Suc i + length cs"
    by (rule Cons.IH) (use Cons.prems in simp)
  ultimately show ?case by simp
qed

lemma negotiate_selects:
  "fst (negotiate ranges offered) = Root \<or> fst (negotiate ranges offered) \<in> set offered"
proof (cases offered)
  case Nil
  then show ?thesis by (simp add: negotiate_def)
next
  case (Cons t ts)
  let ?cs = "map (confidence (sort_ranges ranges)) ts"
  obtain i best where sel: "select_from (0, confidence (sort_ranges ranges) t) 1 ?cs = (i, best)"
    by (cases "select_from (0, confidence (sort_ranges ranges) t) 1 ?cs")
  have "i < 1 + length ?cs"
    using select_from_bound [of 0 1 "confidence (sort_ranges ranges) t" ?cs] sel by simp
  then have "i < length offered" using Cons by simp
  then have "offered ! i \<in> set offered" by (rule nth_mem)
  then show ?thesis using Cons sel by (simp add: negotiate_def)
qed

lemma is_alpha_hyphen: "list_all is_alpha l \<Longrightarrow> CHR ''-'' \<notin> set l"
  by (auto simp add: list_all_iff is_alpha_def)

lemma parse_tag_language:
  "language (parse_tag s) = Some l \<Longrightarrow> CHR ''-'' \<notin> set l"
  by (auto simp add: parse_tag_def Root_def is_language_subtag_def is_alpha_hyphen Let_def
           split: if_splits list.splits prod.splits)

lemma spec_language_base_no_hyphen:
  "CHR ''-'' \<notin> set (fst (Base spec_language
       (fst (MatchStrings spec_language (Root # map parse_tag ls) h))))"
proof -
  let ?t = "fst (negotiate (parse_ranges h) (Root # map parse_tag ls))"
  have "?t = Root \<or> (\<exists>s. ?t = parse_tag s)"
    using negotiate_selects [of "parse_ranges h" "Root # map parse_tag ls"] by auto
  then have "language ?t = None \<or> (\<exists>l. language ?t = Some l \<and> CHR ''-'' \<notin> set l)"
    by (cases "language ?t") (auto simp add: Root_def dest: parse_tag_language)
  then show ?thesis
    by (auto simp add: spec_language_simps component_def)
qed

subsection \<open>Identifiers with no language subtag in the package of the specification\<close>

text \<open>
  The first subtag of an identifier is what precedes its first hyphen. When it is not a
  language subtag the parser gives the Root tag.
\<close>

lemma split_on_first:
  "\<exists>rest. split_on d s = takeWhile (\<lambda>c. c \<noteq> d) s # rest"
  by (induction s) (auto split: list.splits)

lemma parse_tag_no_language:
  assumes "\<not> is_language_subtag (takeWhile (\<lambda>c. c \<noteq> CHR ''-'') s)"
  shows "parse_tag s = Root"
proof -
  obtain rest where "split_on CHR ''-'' s = takeWhile (\<lambda>c. c \<noteq> CHR ''-'') s # rest"
    using split_on_first by blast
  with assms show ?thesis by (simp add: parse_tag_def)
qed

section \<open>The claims\<close>

subsection \<open>Validation and provisioning\<close>

text \<open>
  C3: \<open>Validate\<close> reports an error exactly when a variable name is set while the list
  of offered languages is empty; whenever the list is not empty it reports none.
\<close>

theorem Validate_fails_iff:
  "(Validate m \<noteq> None) = (VarLanguage (Config m) \<noteq> [] \<and> MatchLanguages (Config m) = [])
   \<and> (MatchLanguages (Config m) \<noteq> [] \<longrightarrow> Validate m = None)"
  by (auto simp add: Validate_def)

theorem Validate_fails_iff_witness:
  "Validate (example_matcher \<lparr>MatchLanguages = [], FullLocale = False,
                              VarLanguage = ''lang'', FallbackValue = []\<rparr>) \<noteq> None
   \<and> MatchLanguages (Config (example_matcher \<lparr>MatchLanguages = [''de'', ''en''], FullLocale = False,
                              VarLanguage = ''lang'', FallbackValue = []\<rparr>)) \<noteq> []
   \<and> Validate (example_matcher \<lparr>MatchLanguages = [''de'', ''en''], FullLocale = False,
                              VarLanguage = ''lang'', FallbackValue = []\<rparr>) = None"
  using Validate_fails_iff [of "example_matcher \<lparr>MatchLanguages = [], FullLocale = False,
                              VarLanguage = ''lang'', FallbackValue = []\<rparr>"]
    Validate_fails_iff [of "example_matcher \<lparr>MatchLanguages = [''de'', ''en''], FullLocale = False,
                              VarLanguage = ''lang'', FallbackValue = []\<rparr>"]
  by (simp add: example_matcher_simps)

text \<open>
  C9: for every configuration and every implementation of the language package,
  \<open>Provision\<close> returns no error. Each configured identifier goes through
  \<open>language.Make\<close>, which has no error result, and the offered list is the undetermined
  tag followed by those tags; afterwards the logger and the matcher are set. Over the
  package that the specification describes, a configured identifier from which no
  language subtag can be taken is offered as the Root tag, and \<open>Provision\<close> succeeds
  all the same.
\<close>

theorem Provision_succeeds:
  "fst (Provision L ctx m) = None
   \<and> LanguageMatcher (snd (Provision L ctx m))
       = Some (NewMatcher L (Und L # map (Make L) (MatchLanguages (Config m))))
   \<and> logger (snd (Provision L ctx m)) = Some (CtxLogger ctx)
   \<and> Config (snd (Provision L ctx m)) = Config m
   \<and> (s \<in> set (MatchLanguages (Config ms))
        \<and> \<not> is_language_subtag (takeWhile (\<lambda>c. c \<noteq> CHR ''-'') s)
      \<longrightarrow> fst (Provision spec_language ctx ms) = None
          \<and> LanguageMatcher (snd (Provision spec_language ctx ms))
              = Some (Root # map (Make spec_language) (MatchLanguages (Config ms)))
          \<and> Make spec_language s = Root
          \<and> IsRoot spec_language (Make spec_language s)
          \<and> Root \<in> set (map (Make spec_language) (MatchLanguages (Config ms))))"
proof -
  have code: "fst (Provision L ctx m) = None
     \<and> LanguageMatcher (snd (Provision L ctx m))
         = Some (NewMatcher L (Und L # map (Make L) (MatchLanguages (Config m))))
     \<and> logger (snd (Provision L ctx m)) = Some (CtxLogger ctx)
     \<and> Config (snd (Provision L ctx m)) = Config m"
    by (simp add: Provision_eq)
  have pkg: "fst (Provision spec_language ctx ms) = None
          \<and> LanguageMatcher (snd (Provision spec_language ctx ms))
              = Some (Root # map (Make spec_language) (MatchLanguages (Config ms)))
          \<and> Make spec_language s = Root
          \<and> IsRoot spec_language (Make spec_language s)
          \<and> Root \<in> set (map (Make spec_language) (MatchLanguages (Config ms)))"
    if member: "s \<in> set (MatchLanguages (Config ms))"
      and bad: "\<not> is_language_subtag (takeWhile (\<lambda>c. c \<noteq> CHR ''-'') s)"
  proof -
    have root: "Make spec_language s = Root"
      using parse_tag_no_language [OF bad] by (simp add: spec_language_def)
    have "Make spec_language s \<in> set (map (Make spec_language) (MatchLanguages (Config ms)))"
      using member by simp
    then have "Root \<in> set (map (Make spec_language) (MatchLanguages (Config ms)))"
      by (simp only: root)
    moreover have "IsRoot spec_language (Make spec_language s)"
      by (simp add: root) (simp add: spec_language_def is_root_def)
    moreover have "fst (Provision spec_language ctx ms) = None"
      "LanguageMatcher (snd (Provision spec_language ctx ms))
         = Some (Root # map (Make spec_language) (MatchLanguages (Config ms)))"
      by (simp_all add: Provision_eq) (simp add: spec_language_def)
    ultimately show ?thesis using root by simp
  qed
  from code pkg show ?thesis by blast
qed

theorem Provision_succeeds_witness:
  "''!!'' \<in> set (MatchLanguages (Config (\<lparr>Config = \<lparr>MatchLanguages = [''de'', ''!!''],
          FullLocale = False, VarLanguage = ''lang'', FallbackValue = []\<rparr>,
          LanguageMatcher = None, logger = None\<rparr> :: LanguageTag list Matcher)))
   \<and> \<not> is_language_subtag (takeWhile (\<lambda>c. c \<noteq> CHR ''-'') ''!!'')
   \<and> Provision spec_language \<lparr>CtxLogger = ZapLogger\<rparr>
        \<lparr>Config = \<lparr>MatchLanguages = [''de'', ''!!''], FullLocale = False,
                    VarLanguage = ''lang'', FallbackValue = []\<rparr>,
         LanguageMatcher = None, logger = None\<rparr>
      = (None, \<lparr>Config = \<lparr>MatchLanguages = [''de'', ''!!''], FullLocale = False,
                            VarLanguage = ''lang'', FallbackValue = []\<rparr>,
                 LanguageMatcher = Some [Root, tag_de, Root], logger = Some ZapLogger\<rparr>)"
proof -
  let ?m = "\<lparr>Config = \<lparr>MatchLanguages = [''de'', ''!!''], FullLocale = False,
                       VarLanguage = ''lang'', FallbackValue = []\<rparr>,
            LanguageMatcher = None, logger = None\<rparr> :: LanguageTag list Matcher"
  let ?ctx = "\<lparr>CtxLogger = ZapLogger\<rparr>"
  have h1: "''!!'' \<in> set (MatchLanguages (Config ?m))" by simp
  have h2: "\<not> is_language_subtag (takeWhile (\<lambda>c. c \<noteq> CHR ''-'') ''!!'')"
    by (simp add: is_language_subtag_def is_alpha_def)
  have de: "Make spec_language ''de'' = tag_de"
    unfolding spec_language_def by (simp, code_simp)
  note all = Provision_succeeds [of spec_language ?ctx ?m "''!!''" ?m]
  have p1: "fst (Provision spec_language ?ctx ?m) = None"
    using all by blast
  have p2: "LanguageMatcher (snd (Provision spec_language ?ctx ?m))
       = Some (Root # map (Make spec_language) (MatchLanguages (Config ?m)))"
    using all h1 h2 by blast
  have p3: "logger (snd (Provision spec_language ?ctx ?m)) = Some (CtxLogger ?ctx)"
    using all by blast
  have p4: "Config (snd (Provision spec_language ?ctx ?m)) = Config ?m"
    using all by blast
  have p5: "Make spec_language ''!!'' = Root"
    using all h1 h2 by blast
  have offered: "Root # map (Make spec_language) (MatchLanguages (Config ?m)) = [Root, tag_de, Root]"
    by (simp add: de p5)
  have "snd (Provision spec_language ?ctx ?m)
          = \<lparr>Config = Config ?m, LanguageMatcher = Some [Root, tag_de, Root],
             logger = Some ZapLogger\<rparr>"
    using p2 p3 p4 unfolding offered by (cases "snd (Provision spec_language ?ctx ?m)") simp
  with p1 have "Provision spec_language ?ctx ?m
          = (None, \<lparr>Config = Config ?m, LanguageMatcher = Some [Root, tag_de, Root],
                    logger = Some ZapLogger\<rparr>)"
    by (cases "Provision spec_language ?ctx ?m") simp
  with h1 h2 show ?thesis by simp
qed

subsection \<open>The gate\<close>

text \<open>
  C2: when no offered language is configured, \<open>Match\<close> returns true for every request,
  whatever its Accept-Language header holds (and leaves the request as it was).
\<close>

theorem Match_no_offered:
  "MatchLanguages (Config m) = [] \<Longrightarrow> Match L m r = Inr (True, r)"
  by (simp add: Match_def)

theorem Match_no_offered_witness:
  "MatchLanguages (Config (example_matcher \<lparr>MatchLanguages = [], FullLocale = False,
                                            VarLanguage = [], FallbackValue = []\<rparr>)) = []
   \<and> Match spec_language
         (example_matcher \<lparr>MatchLanguages = [], FullLocale = False,
                            VarLanguage = [], FallbackValue = []\<rparr>)
         (example_request ''fr-FR'')
       = Inr (True, example_request ''fr-FR'')"
  using Match_no_offered [of "example_matcher \<lparr>MatchLanguages = [], FullLocale = False,
                                                VarLanguage = [], FallbackValue = []\<rparr>"
                             spec_language "example_request ''fr-FR''"]
  by (simp add: example_matcher_simps)

text \<open>
  C1 (the code departs from the claim): with offered languages configured, no match and a
  fallback value configured, \<open>Match\<close> still returns false when no variable name is
  configured: the branch that returns true for the fallback also asks for the variable
  name.
\<close>

theorem Match_fallback_needs_variable:
  assumes "logger m = Some lg" and "LanguageMatcher m = Some lm"
    and "MatchLanguages (Config m) \<noteq> []"
    and "IsRoot L (fst (MatchStrings L lm (HeaderGet r ''Accept-Language'')))"
    and "FallbackValue (Config m) \<noteq> []"
    and "VarLanguage (Config m) = []"
  shows "Match L m r = Inr (False, r)"
  using assms by (simp add: Match_def matchLanguage_eq Let_def)

theorem Match_fallback_needs_variable_witness:
  "MatchLanguages \<lparr>MatchLanguages = [''de'', ''en''], FullLocale = False,
                   VarLanguage = [], FallbackValue = ''en''\<rparr> \<noteq> []
   \<and> FallbackValue \<lparr>MatchLanguages = [''de'', ''en''], FullLocale = False,
                   VarLanguage = [], FallbackValue = ''en''\<rparr> \<noteq> []
   \<and> IsRoot spec_language
        (fst (MatchStrings spec_language (Root # map parse_tag [''de'', ''en''])
               (HeaderGet (example_request ''fr-FR'') ''Accept-Language'')))
   \<and> Match spec_language
         (example_matcher \<lparr>MatchLanguages = [''de'', ''en''], FullLocale = False,
                            VarLanguage = [], FallbackValue = ''en''\<rparr>)
         (example_request ''fr-FR'')
       = Inr (False, example_request ''fr-FR'')"
proof -
  let ?c = "\<lparr>MatchLanguages = [''de'', ''en''], FullLocale = False,
              VarLanguage = [], FallbackValue = ''en''\<rparr>"
  have root: "IsRoot spec_language
        (fst (MatchStrings spec_language (Root # map parse_tag [''de'', ''en''])
               (HeaderGet (example_request ''fr-FR'') ''Accept-Language'')))"
    by (simp add: spec_language_simps example_request_header negotiate_fr_FR example_tags
             del: list.map)
  have "Match spec_language (example_matcher ?c) (example_request ''fr-FR'')
          = Inr (False, example_request ''fr-FR'')"
    by (rule Match_fallback_needs_variable [where lg = ZapLogger
               and lm = "Root # map parse_tag [''de'', ''en'']"])
       (simp_all add: example_matcher_simps root del: list.map)
  with root show ?thesis by simp
qed

text \<open>
  C10: \<open>Match\<close> changes nothing of the request but the variable
  \<open>langneg_<var_language>\<close>, and that only when a variable name is configured: with
  no variable name, and also when negotiation fails with no fallback value configured,
  the request it returns is the request it was given.
\<close>

theorem Match_frame:
  assumes "Match L m r = Inr (b, r')"
  shows "(r' = r \<or> (VarLanguage (Config m) \<noteq> []
                     \<and> (\<exists>v. r' = SetVar r (''langneg_'' @ VarLanguage (Config m)) v)))
         \<and> (VarLanguage (Config m) = [] \<longrightarrow> r' = r)
         \<and> (\<forall>v. matchLanguage L m r = Inr (False, v) \<and> FallbackValue (Config m) = [] \<longrightarrow> r' = r)"
  using assms by (auto simp add: Match_def split: if_splits sum.splits prod.splits)

text \<open>
  C8: two runs of \<open>Match\<close> with the same configuration, provisioned over the same
  package, on requests with the same Accept-Language header return the same boolean and
  perform the same write (none, or the same value under the same variable), whatever
  else the two requests hold.
\<close>

theorem Match_deterministic:
  assumes "Config m1 = Config m2"
    and "HeaderGet r1 ''Accept-Language'' = HeaderGet r2 ''Accept-Language''"
  shows "\<exists>b w. Match L (snd (Provision L ctx1 m1)) r1
                  = Inr (b, case w of None \<Rightarrow> r1 | Some (k, v) \<Rightarrow> SetVar r1 k v)
              \<and> Match L (snd (Provision L ctx2 m2)) r2
                  = Inr (b, case w of None \<Rightarrow> r2 | Some (k, v) \<Rightarrow> SetVar r2 k v)"
proof -
  let ?lm = "NewMatcher L (Und L # map (Make L) (MatchLanguages (Config m2)))"
  have p1: "logger (snd (Provision L ctx1 m1)) = Some (CtxLogger ctx1)"
    "LanguageMatcher (snd (Provision L ctx1 m1)) = Some ?lm"
    "Config (snd (Provision L ctx1 m1)) = Config m2"
    using assms(1) by (simp_all add: Provision_eq)
  have p2: "logger (snd (Provision L ctx2 m2)) = Some (CtxLogger ctx2)"
    "LanguageMatcher (snd (Provision L ctx2 m2)) = Some ?lm"
    "Config (snd (Provision L ctx2 m2)) = Config m2"
    by (simp_all add: Provision_eq)
  have ml: "matchLanguage L (snd (Provision L ctx1 m1)) r1
              = matchLanguage L (snd (Provision L ctx2 m2)) r2"
    by (simp add: matchLanguage_eq [OF p1(1,2)] matchLanguage_eq [OF p2(1,2)]
                  p1(3) p2(3) assms(2) Let_def)
  obtain mt loc where res: "matchLanguage L (snd (Provision L ctx2 m2)) r2 = Inr (mt, loc)"
    using matchLanguage_returns [OF p2(1,2)] by blast
  show ?thesis
  proof (cases "MatchLanguages (Config m2) = []")
    case True
    then have
      "Match L (snd (Provision L ctx1 m1)) r1
         = Inr (True, case None of None \<Rightarrow> r1 | Some (k, v) \<Rightarrow> SetVar r1 k v)"
      "Match L (snd (Provision L ctx2 m2)) r2
         = Inr (True, case None of None \<Rightarrow> r2 | Some (k, v) \<Rightarrow> SetVar r2 k v)"
      by (simp_all add: Match_def p1(3) p2(3))
    then show ?thesis by blast
  next
    case False
    let ?key = "''langneg_'' @ VarLanguage (Config m2)"
    let ?w = "if mt \<and> VarLanguage (Config m2) \<noteq> [] then Some (?key, loc)
              else if FallbackValue (Config m2) \<noteq> [] \<and> VarLanguage (Config m2) \<noteq> []
              then Some (?key, FallbackValue (Config m2)) else None"
    let ?b = "if mt \<and> VarLanguage (Config m2) \<noteq> [] then mt
              else if FallbackValue (Config m2) \<noteq> [] \<and> VarLanguage (Config m2) \<noteq> []
              then True else mt"
    have "Match L (snd (Provision L ctx1 m1)) r1
            = Inr (?b, case ?w of None \<Rightarrow> r1 | Some (k, v) \<Rightarrow> SetVar r1 k v)"
      using False by (simp add: Match_def ml res p1(3))
    moreover have "Match L (snd (Provision L ctx2 m2)) r2
            = Inr (?b, case ?w of None \<Rightarrow> r2 | Some (k, v) \<Rightarrow> SetVar r2 k v)"
      using False by (simp add: Match_def res p2(3))
    ultimately show ?thesis by blast
  qed
qed

subsection \<open>The language-matching step\<close>

text \<open>
  C4: with the logger and the matcher set, \<open>matchLanguage\<close> returns, and it reports a
  match exactly when the tag that the package selects is not Root; when that tag is Root
  the value is the empty string.
\<close>

theorem matchLanguage_Root:
  assumes "logger m = Some lg" and "LanguageMatcher m = Some lm"
  shows "\<exists>result.
           matchLanguage L m r =
             Inr (\<not> IsRoot L (fst (MatchStrings L lm (HeaderGet r ''Accept-Language''))), result)
           \<and> (IsRoot L (fst (MatchStrings L lm (HeaderGet r ''Accept-Language''))) \<longrightarrow> result = [])"
  using assms by (simp add: matchLanguage_eq Let_def)

text \<open>
  C5: on a match with \<open>FullLocale\<close> false, the value is the string of the base language
  of the selected tag; it has no hyphen, the string of that base language having none.
\<close>

theorem matchLanguage_short:
  assumes "logger m = Some lg" and "LanguageMatcher m = Some lm"
    and "\<not> FullLocale (Config m)"
    and "matchLanguage L m r = Inr (True, v)"
    and "CHR ''-'' \<notin> set (fst (Base L (fst (MatchStrings L lm (HeaderGet r ''Accept-Language'')))))"
  shows "v = fst (Base L (fst (MatchStrings L lm (HeaderGet r ''Accept-Language''))))
         \<and> CHR ''-'' \<notin> set v"
  using assms by (auto simp add: matchLanguage_eq Let_def split: if_splits)

text \<open>
  C6: on a match with \<open>FullLocale\<close> true, the value is the hyphen-join of those of the
  base language, the region and the script of the selected tag, in this order, whose
  confidence is \<open>Exact\<close>.
\<close>

theorem matchLanguage_full:
  assumes "logger m = Some lg" and "LanguageMatcher m = Some lm"
    and "FullLocale (Config m)"
    and "matchLanguage L m r = Inr (True, v)"
    and "t = fst (MatchStrings L lm (HeaderGet r ''Accept-Language''))"
  shows "v = Join (map fst (filter (\<lambda>c. snd c = Exact) [Base L t, Region L t, Script L t])) ''-''"
  using assms by (auto simp add: matchLanguage_eq Let_def split: if_splits)

subsection \<open>The claims at the example inputs\<close>

theorem Match_frame_witness:
  "Match spec_language
     (example_matcher \<lparr>MatchLanguages = [''de'', ''en''], FullLocale = False,
                        VarLanguage = [], FallbackValue = []\<rparr>)
     (example_request ''en;q=0.4, de;q=0.8'')
   = Inr (True, example_request ''en;q=0.4, de;q=0.8'')
   \<and> Match spec_language
     (example_matcher \<lparr>MatchLanguages = [''de'', ''en''], FullLocale = False,
                        VarLanguage = ''lang'', FallbackValue = []\<rparr>)
     (example_request ''fr-FR'')
   = Inr (False, example_request ''fr-FR'')"
proof -
  let ?c1 = "\<lparr>MatchLanguages = [''de'', ''en''], FullLocale = False,
               VarLanguage = [], FallbackValue = []\<rparr>"
  let ?c2 = "\<lparr>MatchLanguages = [''de'', ''en''], FullLocale = False,
               VarLanguage = ''lang'', FallbackValue = []\<rparr>"
  have ml1: "matchLanguage spec_language (example_matcher ?c1)
               (example_request ''en;q=0.4, de;q=0.8'') = Inr (True, ''de'')"
    by (simp add: matchLanguage_eq [where lg = ZapLogger
                    and lm = "Root # map parse_tag [''de'', ''en'']"]
                  example_matcher_simps example_request_header spec_language_simps
                  negotiate_en_de example_tags del: list.map)
  have ml2: "matchLanguage spec_language (example_matcher ?c2)
               (example_request ''fr-FR'') = Inr (False, [])"
    by (simp add: matchLanguage_eq [where lg = ZapLogger
                    and lm = "Root # map parse_tag [''de'', ''en'']"]
                  example_matcher_simps example_request_header spec_language_simps
                  negotiate_fr_FR example_tags del: list.map)
  obtain b1 r1 where m1: "Match spec_language (example_matcher ?c1)
               (example_request ''en;q=0.4, de;q=0.8'') = Inr (b1, r1)"
    by (auto simp add: Match_def ml1 example_matcher_simps)
  obtain b2 r2 where m2: "Match spec_language (example_matcher ?c2)
               (example_request ''fr-FR'') = Inr (b2, r2)"
    by (auto simp add: Match_def ml2 example_matcher_simps)
  have "r1 = example_request ''en;q=0.4, de;q=0.8''"
    using Match_frame [OF m1] by (simp add: example_matcher_simps)
  moreover have "r2 = example_request ''fr-FR''"
    using Match_frame [OF m2] ml2 by (simp add: example_matcher_simps)
  moreover have "b1" "\<not> b2"
    using m1 m2 by (simp_all add: Match_def ml1 ml2 example_matcher_simps)
  ultimately show ?thesis using m1 m2 by simp
qed

theorem Match_deterministic_witness:
  "Match spec_language
     (example_matcher \<lparr>MatchLanguages = [''de'', ''en''], FullLocale = False,
                        VarLanguage = ''lang'', FallbackValue = []\<rparr>)
     (example_request ''en;q=0.4, de;q=0.8'')
   = Inr (True, SetVar (example_request ''en;q=0.4, de;q=0.8'') ''langneg_lang'' ''de'')
   \<and> Match spec_language
     (example_matcher \<lparr>MatchLanguages = [''de'', ''en''], FullLocale = False,
                        VarLanguage = ''lang'', FallbackValue = []\<rparr>)
     \<lparr>Header = [''Accept-Language'' \<mapsto> [''en;q=0.4, de;q=0.8''], ''Host'' \<mapsto> [''localhost'']],
      Vars = Map.empty\<rparr>
   = Inr (True, SetVar \<lparr>Header = [''Accept-Language'' \<mapsto> [''en;q=0.4, de;q=0.8''],
                                   ''Host'' \<mapsto> [''localhost'']],
                         Vars = Map.empty\<rparr> ''langneg_lang'' ''de'')"
proof -
  let ?c = "\<lparr>MatchLanguages = [''de'', ''en''], FullLocale = False,
              VarLanguage = ''lang'', FallbackValue = []\<rparr>"
  let ?m = "\<lparr>Config = ?c, LanguageMatcher = None, logger = None\<rparr> :: LanguageTag list Matcher"
  let ?r1 = "example_request ''en;q=0.4, de;q=0.8''"
  let ?r2 = "\<lparr>Header = [''Accept-Language'' \<mapsto> [''en;q=0.4, de;q=0.8''],
                         ''Host'' \<mapsto> [''localhost'']],
               Vars = Map.empty\<rparr>"
  have h: "HeaderGet ?r1 ''Accept-Language'' = HeaderGet ?r2 ''Accept-Language''"
    by (simp add: example_request_header) (simp add: HeaderGet_def)
  have ml1: "matchLanguage spec_language (example_matcher ?c) ?r1 = Inr (True, ''de'')"
    by (simp add: matchLanguage_eq [where lg = ZapLogger
                    and lm = "Root # map parse_tag [''de'', ''en'']"]
                  example_matcher_simps example_request_header spec_language_simps
                  negotiate_en_de example_tags del: list.map)
  have first: "Match spec_language (example_matcher ?c) ?r1
                 = Inr (True, SetVar ?r1 ''langneg_lang'' ''de'')"
    by (simp add: Match_def ml1 example_matcher_simps)
  obtain b w where
    a: "Match spec_language (example_matcher ?c) ?r1
          = Inr (b, case w of None \<Rightarrow> ?r1 | Some (k, v) \<Rightarrow> SetVar ?r1 k v)" and
    b: "Match spec_language (example_matcher ?c) ?r2
          = Inr (b, case w of None \<Rightarrow> ?r2 | Some (k, v) \<Rightarrow> SetVar ?r2 k v)"
    using Match_deterministic [of ?m ?m ?r1 ?r2 spec_language
                                  "\<lparr>CtxLogger = ZapLogger\<rparr>" "\<lparr>CtxLogger = ZapLogger\<rparr>", OF refl h]
    unfolding example_matcher_def by blast
  from a first have b_true: "b" and
    w: "(case w of None \<Rightarrow> ?r1 | Some (k, v) \<Rightarrow> SetVar ?r1 k v) = SetVar ?r1 ''langneg_lang'' ''de''"
    by simp_all
  have "Vars (case w of None \<Rightarrow> ?r1 | Some (k, v) \<Rightarrow> SetVar ?r1 k v) ''langneg_lang'' = Some ''de''"
    by (simp add: w SetVar_def)
  then have "w = Some (''langneg_lang'', ''de'')"
    by (cases w) (auto simp add: SetVar_def example_request_def split: if_splits)
  with b b_true first show ?thesis by simp
qed

theorem matchLanguage_Root_witness:
  "logger (example_matcher \<lparr>MatchLanguages = [''de'', ''en''], FullLocale = False,
                             VarLanguage = ''lang'', FallbackValue = []\<rparr>) = Some ZapLogger
   \<and> LanguageMatcher (example_matcher \<lparr>MatchLanguages = [''de'', ''en''], FullLocale = False,
                             VarLanguage = ''lang'', FallbackValue = []\<rparr>)
       = Some (Root # map parse_tag [''de'', ''en''])
   \<and> matchLanguage spec_language
         (example_matcher \<lparr>MatchLanguages = [''de'', ''en''], FullLocale = False,
                            VarLanguage = ''lang'', FallbackValue = []\<rparr>)
         (example_request ''fr-FR'')
       = Inr (False, [])"
proof -
  let ?c = "\<lparr>MatchLanguages = [''de'', ''en''], FullLocale = False,
              VarLanguage = ''lang'', FallbackValue = []\<rparr>"
  have h1: "logger (example_matcher ?c) = Some ZapLogger"
    by (simp add: example_matcher_simps)
  have h2: "LanguageMatcher (example_matcher ?c) = Some (Root # map parse_tag [''de'', ''en''])"
    by (simp add: example_matcher_simps)
  have root: "IsRoot spec_language
        (fst (MatchStrings spec_language (Root # map parse_tag [''de'', ''en''])
               (HeaderGet (example_request ''fr-FR'') ''Accept-Language'')))"
    by (simp add: spec_language_simps example_request_header negotiate_fr_FR example_tags
             del: list.map)
  from matchLanguage_Root [OF h1 h2, of spec_language "example_request ''fr-FR''"] root
  have "matchLanguage spec_language (example_matcher ?c) (example_request ''fr-FR'') = Inr (False, [])"
    by auto
  with h1 h2 show ?thesis by simp
qed

theorem matchLanguage_short_witness:
  "\<not> FullLocale (Config (example_matcher \<lparr>MatchLanguages = [''de'', ''en''], FullLocale = False,
                             VarLanguage = ''lang'', FallbackValue = []\<rparr>))
   \<and> matchLanguage spec_language
         (example_matcher \<lparr>MatchLanguages = [''de'', ''en''], FullLocale = False,
                            VarLanguage = ''lang'', FallbackValue = []\<rparr>)
         (example_request ''en;q=0.4, de;q=0.8'')
       = Inr (True, ''de'')
   \<and> ''de'' = fst (Base spec_language
                    (fst (MatchStrings spec_language (Root # map parse_tag [''de'', ''en''])
                           (HeaderGet (example_request ''en;q=0.4, de;q=0.8'') ''Accept-Language''))))
   \<and> CHR ''-'' \<notin> set ''de''"
proof -
  let ?c = "\<lparr>MatchLanguages = [''de'', ''en''], FullLocale = False,
              VarLanguage = ''lang'', FallbackValue = []\<rparr>"
  let ?r = "example_request ''en;q=0.4, de;q=0.8''"
  have h1: "logger (example_matcher ?c) = Some ZapLogger"
    by (simp add: example_matcher_simps)
  have h2: "LanguageMatcher (example_matcher ?c) = Some (Root # map parse_tag [''de'', ''en''])"
    by (simp add: example_matcher_simps)
  have h3: "\<not> FullLocale (Config (example_matcher ?c))"
    by (simp add: example_matcher_simps)
  have h4: "matchLanguage spec_language (example_matcher ?c) ?r = Inr (True, ''de'')"
    by (simp add: matchLanguage_eq [OF h1 h2] example_matcher_simps example_request_header
                  spec_language_simps negotiate_en_de example_tags del: list.map)
  have h5: "CHR ''-'' \<notin> set (fst (Base spec_language
              (fst (MatchStrings spec_language (Root # map parse_tag [''de'', ''en''])
                     (HeaderGet ?r ''Accept-Language'')))))"
    by (simp add: example_request_header spec_language_simps negotiate_en_de example_tags
             del: list.map)
  from matchLanguage_short [OF h1 h2 h3 h4 h5] h3 h4 show ?thesis by simp
qed

theorem matchLanguage_full_witness:
  "FullLocale (Config (example_matcher \<lparr>MatchLanguages = [''de-DE'', ''en''], FullLocale = True,
                             VarLanguage = ''lang'', FallbackValue = []\<rparr>))
   \<and> matchLanguage spec_language
         (example_matcher \<lparr>MatchLanguages = [''de-DE'', ''en''], FullLocale = True,
                            VarLanguage = ''lang'', FallbackValue = []\<rparr>)
         (example_request ''de-DE'')
       = Inr (True, ''de-DE'')
   \<and> ''de-DE'' = Join (map fst (filter (\<lambda>c. snd c = Exact)
                     [Base spec_language tag_de_DE, Region spec_language tag_de_DE,
                      Script spec_language tag_de_DE])) ''-''"
proof -
  let ?c = "\<lparr>MatchLanguages = [''de-DE'', ''en''], FullLocale = True,
              VarLanguage = ''lang'', FallbackValue = []\<rparr>"
  let ?r = "example_request ''de-DE''"
  have h1: "logger (example_matcher ?c) = Some ZapLogger"
    by (simp add: example_matcher_simps)
  have h2: "LanguageMatcher (example_matcher ?c) = Some (Root # map parse_tag [''de-DE'', ''en''])"
    by (simp add: example_matcher_simps)
  have h3: "FullLocale (Config (example_matcher ?c))"
    by (simp add: example_matcher_simps)
  have h4: "matchLanguage spec_language (example_matcher ?c) ?r = Inr (True, ''de-DE'')"
    by (simp add: matchLanguage_eq [OF h1 h2] example_matcher_simps example_request_header
                  spec_language_simps negotiate_de_DE example_tags del: list.map)
  have h5: "tag_de_DE = fst (MatchStrings spec_language (Root # map parse_tag [''de-DE'', ''en''])
                               (HeaderGet ?r ''Accept-Language''))"
    by (simp add: example_request_header spec_language_simps negotiate_de_DE del: list.map)
  from matchLanguage_full [OF h1 h2 h3 h4 h5] h3 h4 show ?thesis by simp
qed

subsection \<open>The scenario of the specification\<close>

text \<open>
  C7: over the package that the specification describes, with the offered languages
  \<open>de\<close> and \<open>en\<close> and the header \<open>en;q=0.4, de;q=0.8\<close>, the language-matching step
  of a provisioned matcher reports a match with the value \<open>de\<close>, in either locale
  mode, and \<open>Match\<close> returns true and stores \<open>de\<close> under the variable, if one is
  configured.
\<close>

theorem scenario_quality_wins:
  "matchLanguage spec_language
     (snd (Provision spec_language ctx
            \<lparr>Config = \<lparr>MatchLanguages = [''de'', ''en''], FullLocale = fl,
                        VarLanguage = var, FallbackValue = fb\<rparr>,
             LanguageMatcher = lm, logger = lg\<rparr>))
     \<lparr>Header = hs(''Accept-Language'' \<mapsto> [''en;q=0.4, de;q=0.8'']), Vars = vs\<rparr>
   = Inr (True, ''de'')
   \<and> Match spec_language
     (snd (Provision spec_language ctx
            \<lparr>Config = \<lparr>MatchLanguages = [''de'', ''en''], FullLocale = fl,
                        VarLanguage = var, FallbackValue = fb\<rparr>,
             LanguageMatcher = lm, logger = lg\<rparr>))
     \<lparr>Header = hs(''Accept-Language'' \<mapsto> [''en;q=0.4, de;q=0.8'']), Vars = vs\<rparr>
   = Inr (True, \<lparr>Header = hs(''Accept-Language'' \<mapsto> [''en;q=0.4, de;q=0.8'']),
                 Vars = (if var = [] then vs else vs(''langneg_'' @ var \<mapsto> ''de''))\<rparr>)"
proof -
  let ?m = "snd (Provision spec_language ctx
            \<lparr>Config = \<lparr>MatchLanguages = [''de'', ''en''], FullLocale = fl,
                        VarLanguage = var, FallbackValue = fb\<rparr>,
             LanguageMatcher = lm, logger = lg\<rparr>)"
  let ?r = "\<lparr>Header = hs(''Accept-Language'' \<mapsto> [''en;q=0.4, de;q=0.8'']), Vars = vs\<rparr>"
  have p: "logger ?m = Some (CtxLogger ctx)"
    "LanguageMatcher ?m = Some (Root # map parse_tag [''de'', ''en''])"
    "MatchLanguages (Config ?m) = [''de'', ''en'']" "VarLanguage (Config ?m) = var"
    by (simp_all add: Provision_eq spec_language_def)
  have h: "HeaderGet ?r ''Accept-Language'' = ''en;q=0.4, de;q=0.8''"
    by (simp add: HeaderGet_def)
  have ml: "matchLanguage spec_language ?m ?r = Inr (True, ''de'')"
    by (simp add: matchLanguage_eq [OF p(1,2)] h spec_language_simps negotiate_en_de
                  example_tags del: list.map)
  moreover have "Match spec_language ?m ?r
      = Inr (True, \<lparr>Header = hs(''Accept-Language'' \<mapsto> [''en;q=0.4, de;q=0.8'']),
                    Vars = (if var = [] then vs else vs(''langneg_'' @ var \<mapsto> ''de''))\<rparr>)"
    unfolding Match_def ml p(3,4) by (simp add: SetVar_def)
  ultimately show ?thesis by simp
qed

end
